theory Spec2Isabelle
  imports Main "HOL-Library.Char_ord" "HOL-Library.List_Lexorder"
begin

section \<open>s3multipart: the command line wrapper around S3 multi-part uploads\<close>

text \<open>
  A shallow embedding of \<^verbatim>\<open>src/s3multipart/cli.py\<close>. Every command of the script is a
  function from the world it runs in (the state file \<^verbatim>\<open>multipart.json\<close>, the remote
  operations performed so far, the lines echoed so far) to the world it leaves and the
  way the process ends. The S3 client, the directory listing and the confirmation prompt
  are parameters: the script's collaborators, not its code.

  Python strings are lists of characters with code points below 256. Values that
  \<^verbatim>\<open>json.load\<close> returns and \<^verbatim>\<open>json.dumps\<close> accepts are the type \<open>json\<close> (without
  floating point numbers, which the script never looks at). A state file that holds
  the text \<^verbatim>\<open>json.dumps(v)\<close> is modelled by the document \<open>v\<close>, which is what \<^verbatim>\<open>json.load\<close>
  reads from it; a state file may also be blank. The responses to the upload of a part,
  to abort and to complete are such values too; the response that creates the upload
  may be a value \<^verbatim>\<open>json.dumps\<close> rejects. The answer of an operation of the client is a
  function of the arguments of the call.
\<close>

subsection \<open>Python values, exceptions and the ways a process ends\<close>

datatype json =
    JNull
  | JBool bool
  | JInt int
  | JStr string
  | JList "json list"
  | JObj "(string \<times> json) list"

datatype exn =
    KeyError string
  | TypeError
  | ValueError
  | AttributeError
  | JSONDecodeError
  | FileNotFoundError
  | OSError string
  | ClientError string

text \<open>
  A command returns, or leaves through \<^verbatim>\<open>sys.exit(n)\<close>, or dies of an exception nobody
  handles. The interpreter turns the three into the exit status of the process: 0 for
  a normal return, \<open>n\<close> for \<^verbatim>\<open>sys.exit(n)\<close>, 1 after the traceback of an exception.
\<close>

datatype outcome = Returned | SysExit int | Raised exn

fun exit_code :: "outcome \<Rightarrow> int" where
  "exit_code Returned = 0"
| "exit_code (SysExit n) = n"
| "exit_code (Raised e) = 1"

text \<open>
  \<^verbatim>\<open>v[k]\<close> for a string key: the entry of a dict, \<^verbatim>\<open>KeyError\<close> when the dict has no
  such key, \<^verbatim>\<open>TypeError\<close> when \<open>v\<close> is no dict (a list or a string takes integer
  indices only, the other values take none).
\<close>

definition getitem :: "json \<Rightarrow> string \<Rightarrow> exn + json" where
  "getitem v k =
     (case v of
        JObj d \<Rightarrow> (case map_of d k of None \<Rightarrow> Inl (KeyError k) | Some x \<Rightarrow> Inr x)
      | _ \<Rightarrow> Inl TypeError)"

text \<open>
  \<^verbatim>\<open>d[k] = v\<close> on a dict: an existing key keeps its place, a new key goes last.
\<close>

fun setitem :: "(string \<times> json) list \<Rightarrow> string \<Rightarrow> json \<Rightarrow> (string \<times> json) list" where
  "setitem [] k v = [(k, v)]"
| "setitem ((k', v') # d) k v = (if k' = k then (k, v) # d else (k', v') # setitem d k v)"

text \<open>
  \<^verbatim>\<open>v[1:-1]\<close>: a string or a list without its first and its last element (empty when
  there are fewer than three); the other values cannot be sliced.
\<close>

definition slice_1_m1 :: "json \<Rightarrow> exn + json" where
  "slice_1_m1 v =
     (case v of
        JStr s \<Rightarrow> Inr (JStr (butlast (tl s)))
      | JList xs \<Rightarrow> Inr (JList (butlast (tl xs)))
      | _ \<Rightarrow> Inl TypeError)"

text \<open>\<^verbatim>\<open>a + b\<close> where \<open>b\<close> is a list: concatenation when \<open>a\<close> is a list, \<^verbatim>\<open>TypeError\<close> otherwise.\<close>

definition add_list :: "json \<Rightarrow> json list \<Rightarrow> exn + json" where
  "add_list a ys = (case a of JList xs \<Rightarrow> Inr (JList (xs @ ys)) | _ \<Rightarrow> Inl TypeError)"

subsection \<open>The text of the state file, and what \<^verbatim>\<open>json\<close> does with it\<close>

text \<open>
  The state file holds a JSON document, or it is blank: opening a file for writing
  empties it, and it stays empty when nothing is written. \<^verbatim>\<open>json.load\<close> gives the
  document, and raises \<^verbatim>\<open>JSONDecodeError\<close> on the blank file.
\<close>

datatype state_file = Doc json | Blank

text \<open>
  What \<^verbatim>\<open>create_multipart_upload\<close> returns, as far as the script looks at it, which is
  with \<^verbatim>\<open>json.dumps\<close> only: a value that JSON can write, or a value that holds
  something JSON cannot write (the \<^verbatim>\<open>datetime\<close> that boto3 returns as \<^verbatim>\<open>AbortDate\<close> for a
  bucket with a rule on incomplete uploads). \<^verbatim>\<open>json.dumps\<close> raises \<^verbatim>\<open>TypeError\<close> on the
  latter.
\<close>

datatype response = Json json | NotJson

definition json_dumps :: "response \<Rightarrow> exn + json" where
  "json_dumps r = (case r of Json v \<Rightarrow> Inr v | NotJson \<Rightarrow> Inl TypeError)"

subsection \<open>\<^verbatim>\<open>int(s)\<close> on a string\<close>

definition is_digit :: "char \<Rightarrow> bool" where
  "is_digit c \<longleftrightarrow> CHR ''0'' \<le> c \<and> c \<le> CHR ''9''"

definition digit_val :: "char \<Rightarrow> int" where
  "digit_val c = int (of_char c) - 48"

text \<open>
  The white space \<^verbatim>\<open>int\<close> drops around a literal, among the code points below 256:
  tab to carriage return, the space, and the two spaces above 127.
\<close>

definition is_space :: "char \<Rightarrow> bool" where
  "is_space c \<longleftrightarrow>
     (let n = (of_char c :: nat) in (9 \<le> n \<and> n \<le> 13) \<or> n = 32 \<or> n = 133 \<or> n = 160)"

definition base10 :: "string \<Rightarrow> int" where
  "base10 ds = foldl (\<lambda>a c. 10 * a + digit_val c) 0 ds"

text \<open>
  The digits of a literal: one or more digits, where a single underscore may stand
  between two digits. The result is the digits without the underscores.
\<close>

fun digits_us :: "string \<Rightarrow> string option" where
  "digits_us [] = None"
| "digits_us [c] = (if is_digit c then Some [c] else None)"
| "digits_us (c # d # r) =
     (if is_digit c
      then (if d = CHR ''_'' then map_option ((#) c) (digits_us r)
            else map_option ((#) c) (digits_us (d # r)))
      else None)"

text \<open>
  \<^verbatim>\<open>int(s)\<close>: white space around the literal is dropped, one sign may come first, the
  rest is the digits; anything else is a \<^verbatim>\<open>ValueError\<close>. (Leading zeros are digits like
  the others. The interpreter's limit of 4300 digits is beyond what a file name holds.)
\<close>

definition strip :: "string \<Rightarrow> string" where
  "strip s = rev (dropWhile is_space (rev (dropWhile is_space s)))"

definition py_int :: "string \<Rightarrow> exn + int" where
  "py_int s =
     (let t = strip s;
          (sign, body) = (case t of
                            c # r \<Rightarrow> if c = CHR ''+'' then (1, r)
                                     else if c = CHR ''-'' then (- 1, r)
                                     else (1, t)
                          | [] \<Rightarrow> (1, t))
      in case digits_us body of
           None \<Rightarrow> Inl ValueError
         | Some ds \<Rightarrow> Inr (sign * base10 ds))"

subsection \<open>Paths: \<^verbatim>\<open>pathlib\<close>'s name, suffix and stem, and the order of paths\<close>

text \<open>
  The entries \<^verbatim>\<open>Path(src).iterdir()\<close> yields all have the parent \<open>src\<close> and differ in
  their last component, so an entry is modelled by that name. \<^verbatim>\<open>pathlib\<close> orders POSIX
  paths by their lists of components, each compared as a string, code point by code point:
  between two entries of one directory, that is the order of the names as strings,
  the lexicographic order on \<open>string\<close>.

  \<^verbatim>\<open>suffix\<close> is the name from its last dot on (\<^verbatim>\<open>name[i:]\<close> for \<^verbatim>\<open>i = name.rfind('.')\<close>
  when \<^verbatim>\<open>0 < i < len(name) - 1\<close>), and empty when there is no dot, when the last dot
  leads the name, or when it ends the name; \<^verbatim>\<open>stem\<close> is the rest.
\<close>

fun rfind :: "char \<Rightarrow> string \<Rightarrow> nat option" where
  "rfind c [] = None"
| "rfind c (x # xs) =
     (case rfind c xs of
        Some i \<Rightarrow> Some (Suc i)
      | None \<Rightarrow> if x = c then Some 0 else None)"

definition suffix :: "string \<Rightarrow> string" where
  "suffix name =
     (case rfind CHR ''.'' name of
        None \<Rightarrow> []
      | Some i \<Rightarrow> if 0 < i \<and> i < length name - 1 then drop i name else [])"

definition stem :: "string \<Rightarrow> string" where
  "stem name =
     (case rfind CHR ''.'' name of
        None \<Rightarrow> name
      | Some i \<Rightarrow> if 0 < i \<and> i < length name - 1 then take i name else name)"

subsection \<open>Finding the parts of a folder\<close>

text \<open>
  \<^verbatim>\<open>re.match(r'\.[0-9]+', s)\<close>: the pattern is tried at the start of \<open>s\<close> only, and the
  match is the dot with the longest run of digits after it; nothing is asked of what
  follows the match. \<open>None\<close> when \<open>s\<close> does not start with a dot and a digit.
\<close>

definition re_match_dot_digits :: "string \<Rightarrow> string option" where
  "re_match_dot_digits s =
     (case s of
        [] \<Rightarrow> None
      | c # cs \<Rightarrow>
          if c = CHR ''.'' \<and> takeWhile is_digit cs \<noteq> []
          then Some (c # takeWhile is_digit cs)
          else None)"

text \<open>
  \<^verbatim>\<open>sorted([f for f in pathlib.Path(src).iterdir() if re.match(r'\.[0-9]+', f.suffix)])\<close>,
  on the names of the folder's entries.
\<close>

definition find_parts :: "string list \<Rightarrow> string list" where
  "find_parts entries = sort (filter (\<lambda>f. re_match_dot_digits (suffix f) \<noteq> None) entries)"

text \<open>\<^verbatim>\<open>int(part.suffix[1:])\<close>, the part number of an entry.\<close>

definition part_number :: "string \<Rightarrow> exn + int" where
  "part_number part = py_int (drop 1 (suffix part))"

subsection \<open>The world of a command\<close>

text \<open>
  What the script echoes: a line is a list of fragments in a colour. A fragment is
  literal text, the text of a value put into an f-string, or the text
  \<^verbatim>\<open>json.dumps(v, indent=2)\<close> of a value.
\<close>

datatype fragment = Lit string | Str json | Dumps json

datatype colour = Red | Green | Blue | Yellow

text \<open>The operations of the S3 client, as the script calls them, with their arguments.\<close>

datatype s3_call =
    CreateMultipartUpload string string string
  | UploadPart json json json int string
  | AbortMultipartUpload json json json
  | CompleteMultipartUpload json json json json

text \<open>
  The client \<^verbatim>\<open>_s3_session()\<close> builds: each operation returns the response of the
  service or raises. Building the client calls no operation of the service.
\<close>

record s3_client =
  create_multipart_upload :: "string \<Rightarrow> string \<Rightarrow> string \<Rightarrow> exn + response"
  upload_part :: "json \<Rightarrow> json \<Rightarrow> json \<Rightarrow> int \<Rightarrow> string \<Rightarrow> exn + json"
  abort_multipart_upload :: "json \<Rightarrow> json \<Rightarrow> json \<Rightarrow> exn + json"
  complete_multipart_upload :: "json \<Rightarrow> json \<Rightarrow> json \<Rightarrow> json \<Rightarrow> exn + json"

text \<open>
  What a command finds around it: the client, the folders (\<^verbatim>\<open>is_dir\<close>, the names
  \<^verbatim>\<open>iterdir\<close> yields, the bytes \<^verbatim>\<open>open('rb')\<close> gives for an entry, or its error) and
  the answer to \<^verbatim>\<open>click.confirm\<close>.
\<close>

record env =
  s3 :: s3_client
  is_dir :: "string \<Rightarrow> bool"
  iterdir :: "string \<Rightarrow> string list"
  open_rb :: "string \<Rightarrow> string \<Rightarrow> exn + string"
  confirm :: bool

text \<open>
  What a command changes: the state file \<^verbatim>\<open>multipart.json\<close> (\<open>None\<close> when there is no
  such file), the operations of the service called so far, the lines echoed so far.
\<close>

record world =
  multipart_file :: "state_file option"
  s3_calls :: "s3_call list"
  echoed :: "(fragment list \<times> colour) list"

definition secho :: "fragment list \<Rightarrow> colour \<Rightarrow> world \<Rightarrow> world" where
  "secho msg fg w = w\<lparr>echoed := echoed w @ [(msg, fg)]\<rparr>"

text \<open>\<^verbatim>\<open>error(msg)\<close>: echoes the message in red and exits with status 1.\<close>

definition error :: "fragment list \<Rightarrow> world \<Rightarrow> world \<times> outcome" where
  "error msg w = (secho msg Red w, SysExit 1)"

text \<open>
  The decorator \<^verbatim>\<open>check_multipart\<close>: without a state file, \<^verbatim>\<open>error\<close> ends the process
  before the command's body runs.
\<close>

definition check_multipart :: "(world \<Rightarrow> world \<times> outcome) \<Rightarrow> world \<Rightarrow> world \<times> outcome" where
  "check_multipart func w =
     (if multipart_file w = None
      then error [Lit ''No active multipart upload in progress!''] w
      else func w)"

subsection \<open>init\<close>

text \<open>
  After the call of the service, \<^verbatim>\<open>MULTIPART_FILENAME.open('w')\<close> creates the state file
  or empties the one that is there; only then \<^verbatim>\<open>json.dumps(mpupload)\<close> runs, and when it
  raises the file is left blank.
\<close>

definition init :: "env \<Rightarrow> string \<Rightarrow> string \<Rightarrow> world \<Rightarrow> world \<times> outcome" where
  "init env bucket key w =
     (let session = s3 env;
          w1 = w\<lparr>s3_calls := s3_calls w @ [CreateMultipartUpload bucket key ''AES256'']\<rparr>
      in case create_multipart_upload session bucket key ''AES256'' of
           Inl e \<Rightarrow> (w1, Raised e)
         | Inr mpupload \<Rightarrow>
             (let w2 = w1\<lparr>multipart_file := Some Blank\<rparr>
              in case json_dumps mpupload of
                   Inl e \<Rightarrow> (w2, Raised e)
                 | Inr text \<Rightarrow>
                     (secho [Lit ''Started multipart upload for s3://'', Lit bucket, Lit ''/'',
                             Lit key] Green
                        (w2\<lparr>multipart_file := Some (Doc text)\<rparr>),
                      Returned)))"

subsection \<open>upload\<close>

text \<open>
  The three lookups every command makes in the loaded state:
  \<^verbatim>\<open>data['Bucket']\<close>, \<^verbatim>\<open>data['Key']\<close>, \<^verbatim>\<open>data['UploadId']\<close>, in this order.
\<close>

definition read_ids :: "json \<Rightarrow> exn + json \<times> json \<times> json" where
  "read_ids data =
     (case getitem data ''Bucket'' of
        Inl e \<Rightarrow> Inl e
      | Inr bucket \<Rightarrow>
          (case getitem data ''Key'' of
             Inl e \<Rightarrow> Inl e
           | Inr key \<Rightarrow>
               (case getitem data ''UploadId'' of
                  Inl e \<Rightarrow> Inl e
                | Inr upload_id \<Rightarrow> Inr (bucket, key, upload_id))))"

text \<open>
  The first half of the loop's body, which does not touch the state file: the part
  number, the part's bytes, the call of \<^verbatim>\<open>upload_part\<close>, and
  \<^verbatim>\<open>resp['ETag'][1:-1]\<close>. The result is the list of operations called (none or one)
  and the exception raised or the pair of \<open>etag\<close> and \<open>part_number\<close>.
\<close>

definition transfer ::
  "env \<Rightarrow> string \<Rightarrow> json \<Rightarrow> json \<Rightarrow> json \<Rightarrow> string \<Rightarrow> s3_call list \<times> (exn + json \<times> int)" where
  "transfer env src bucket key upload_id part =
     (case part_number part of
        Inl e \<Rightarrow> ([], Inl e)
      | Inr n \<Rightarrow>
          (case open_rb env src part of
             Inl e \<Rightarrow> ([], Inl e)
           | Inr fp \<Rightarrow>
               ([UploadPart bucket key upload_id n fp],
                case upload_part (s3 env) bucket key upload_id n fp of
                  Inl e \<Rightarrow> Inl e
                | Inr resp \<Rightarrow>
                    (case getitem resp ''ETag'' of
                       Inl e \<Rightarrow> Inl e
                     | Inr t \<Rightarrow>
                         (case slice_1_m1 t of
                            Inl e \<Rightarrow> Inl e
                          | Inr etag \<Rightarrow> Inr (etag, n))))))"

text \<open>
  The second half: the state file is loaded again,
  \<^verbatim>\<open>data['Parts'] = data.get('Parts', []) + [{'ETag': etag, 'PartNumber': part_number}]\<close>,
  and the file is written again.
\<close>

definition part_entry :: "json \<times> int \<Rightarrow> json" where
  "part_entry p = JObj [(''ETag'', fst p), (''PartNumber'', JInt (snd p))]"

definition record_part :: "json \<times> int \<Rightarrow> world \<Rightarrow> world \<times> outcome" where
  "record_part p w =
     (case multipart_file w of
        None \<Rightarrow> (w, Raised FileNotFoundError)
      | Some Blank \<Rightarrow> (w, Raised JSONDecodeError)
      | Some (Doc data) \<Rightarrow>
          (case data of
             JObj d \<Rightarrow>
               (case add_list (case map_of d ''Parts'' of None \<Rightarrow> JList [] | Some v \<Rightarrow> v)
                       [part_entry p] of
                  Inl e \<Rightarrow> (w, Raised e)
                | Inr parts \<Rightarrow>
                    (w\<lparr>multipart_file := Some (Doc (JObj (setitem d ''Parts'' parts)))\<rparr>,
                     Returned))
           | _ \<Rightarrow> (w, Raised AttributeError)))"

definition upload_one ::
  "env \<Rightarrow> string \<Rightarrow> json \<Rightarrow> json \<Rightarrow> json \<Rightarrow> string \<Rightarrow> world \<Rightarrow> world \<times> outcome" where
  "upload_one env src bucket key upload_id part w =
     (let (called, r) = transfer env src bucket key upload_id part;
          w1 = w\<lparr>s3_calls := s3_calls w @ called\<rparr>
      in case r of
           Inl e \<Rightarrow> (w1, Raised e)
         | Inr p \<Rightarrow> record_part p w1)"

text \<open>
  The loop over the parts: an exception in one part ends the loop and the process.
  (What the progress bar draws is not part of the model.)
\<close>

fun upload_parts ::
  "env \<Rightarrow> string \<Rightarrow> json \<Rightarrow> json \<Rightarrow> json \<Rightarrow> string list \<Rightarrow> world \<Rightarrow> world \<times> outcome" where
  "upload_parts env src bucket key upload_id [] w = (w, Returned)"
| "upload_parts env src bucket key upload_id (part # rest) w =
     (let (w', out) = upload_one env src bucket key upload_id part w
      in if out = Returned then upload_parts env src bucket key upload_id rest w'
         else (w', out))"

definition upload_body :: "env \<Rightarrow> string \<Rightarrow> world \<Rightarrow> world \<times> outcome" where
  "upload_body env src w =
     (case multipart_file w of
        None \<Rightarrow> (w, Raised FileNotFoundError)
      | Some Blank \<Rightarrow> (w, Raised JSONDecodeError)
      | Some (Doc data) \<Rightarrow>
          (case read_ids data of
             Inl e \<Rightarrow> (w, Raised e)
           | Inr (bucket, key, upload_id) \<Rightarrow>
               if \<not> is_dir env src
               then error [Lit ''Please pass in a folder containing the file parts''] w
               else
                 (let parts = find_parts (iterdir env src)
                  in if parts = []
                     then error [Lit ''Unable to find file parts in '', Lit src, Lit ''!''] w
                     else
                       (let w1 = secho [Lit ''Found the following file parts in '', Lit src, Lit '':'']
                                   Green w;
                            w2 = foldl (\<lambda>w part. secho [Lit part] Blue w) w1 parts
                        in if \<not> confirm env then (w2, SysExit 0)
                           else upload_parts env src bucket key upload_id parts w2))))"

definition upload :: "env \<Rightarrow> string \<Rightarrow> world \<Rightarrow> world \<times> outcome" where
  "upload env src = check_multipart (upload_body env src)"

subsection \<open>abort and finalize\<close>

text \<open>\<^verbatim>\<open>resp['ResponseMetadata']['HTTPStatusCode']\<close>\<close>

definition http_status :: "json \<Rightarrow> exn + json" where
  "http_status resp =
     (case getitem resp ''ResponseMetadata'' of
        Inl e \<Rightarrow> Inl e
      | Inr m \<Rightarrow> getitem m ''HTTPStatusCode'')"

text \<open>
  Both commands end the same way: on the confirming status (204 for abort, 200 for
  finalize) the state file is removed and the success is echoed; on any other status
  two red lines are echoed, the second one the dump of the response. In both cases the
  command returns.
\<close>

definition abort_body :: "env \<Rightarrow> world \<Rightarrow> world \<times> outcome" where
  "abort_body env w =
     (let session = s3 env
      in case multipart_file w of
           None \<Rightarrow> (w, Raised FileNotFoundError)
         | Some Blank \<Rightarrow> (w, Raised JSONDecodeError)
         | Some (Doc data) \<Rightarrow>
             (case read_ids data of
                Inl e \<Rightarrow> (w, Raised e)
              | Inr (bucket, key, upload_id) \<Rightarrow>
                  (let w1 = w\<lparr>s3_calls := s3_calls w @ [AbortMultipartUpload bucket key upload_id]\<rparr>
                   in case abort_multipart_upload session bucket key upload_id of
                        Inl e \<Rightarrow> (w1, Raised e)
                      | Inr resp \<Rightarrow>
                          (case http_status resp of
                             Inl e \<Rightarrow> (w1, Raised e)
                           | Inr code \<Rightarrow>
                               if code = JInt 204
                               then (secho [Lit ''Aborted multipart upload for s3://'',
                                            Str bucket, Lit ''/'', Str key] Yellow
                                       (w1\<lparr>multipart_file := None\<rparr>),
                                     Returned)
                               else (secho [Dumps resp] Red
                                       (secho [Lit ''Bad HTTP response''] Red w1),
                                     Returned)))))"

definition abort :: "env \<Rightarrow> world \<Rightarrow> world \<times> outcome" where
  "abort env = check_multipart (abort_body env)"

definition finalize_body :: "env \<Rightarrow> world \<Rightarrow> world \<times> outcome" where
  "finalize_body env w =
     (let session = s3 env
      in case multipart_file w of
           None \<Rightarrow> (w, Raised FileNotFoundError)
         | Some Blank \<Rightarrow> (w, Raised JSONDecodeError)
         | Some (Doc data) \<Rightarrow>
             (case read_ids data of
                Inl e \<Rightarrow> (w, Raised e)
              | Inr (bucket, key, upload_id) \<Rightarrow>
                  (case getitem data ''Parts'' of
                     Inl e \<Rightarrow> (w, Raised e)
                   | Inr parts \<Rightarrow>
                       (let mpu = JObj [(''Parts'', parts)];
                            w1 = w\<lparr>s3_calls := s3_calls w @
                                      [CompleteMultipartUpload bucket key upload_id mpu]\<rparr>
                        in case complete_multipart_upload session bucket key upload_id mpu of
                             Inl e \<Rightarrow> (w1, Raised e)
                           | Inr resp \<Rightarrow>
                               (case http_status resp of
                                  Inl e \<Rightarrow> (w1, Raised e)
                                | Inr code \<Rightarrow>
                                    if code = JInt 200
                                    then (secho [Lit ''Finalized multipart upload for s3://'',
                                                 Str bucket, Lit ''/'', Str key] Green
                                            (w1\<lparr>multipart_file := None\<rparr>),
                                          Returned)
                                    else (secho [Dumps resp] Red
                                            (secho [Lit ''Bad HTTP response''] Red w1),
                                          Returned))))))"

definition finalize :: "env \<Rightarrow> world \<Rightarrow> world \<times> outcome" where
  "finalize env = check_multipart (finalize_body env)"

subsection \<open>What the claims speak of\<close>

text \<open>
  A part file in the words of the specification: an entry whose extension is a dot and
  then one or more ASCII digits, and nothing else.
\<close>

definition spec_part_file :: "string \<Rightarrow> bool" where
  "spec_part_file f \<longleftrightarrow>
     (case suffix f of
        [] \<Rightarrow> False
      | c # ds \<Rightarrow> c = CHR ''.'' \<and> ds \<noteq> [] \<and> list_all is_digit ds)"

text \<open>
  The completed parts a loaded record shows: the list under \<^verbatim>\<open>'Parts'\<close>, and none for a
  record without that key (\<^verbatim>\<open>data.get('Parts', [])\<close>).
\<close>

definition completed_parts :: "json \<Rightarrow> json list" where
  "completed_parts data = (case getitem data ''Parts'' of Inr (JList xs) \<Rightarrow> xs | _ \<Rightarrow> [])"


text \<open>A string between two double quotes, the way S3 writes an ETag.\<close>

definition quoted :: "string \<Rightarrow> string" where
  "quoted s = CHR 0x22 # s @ [CHR 0x22]"

subsection \<open>Example collaborators and worlds\<close>

text \<open>
  A client that answers every call: it issues the upload id \<^verbatim>\<open>U1\<close>, returns the given
  ETag for every part, and answers abort and complete with the given status code. A
  client that raises on every call. A folder \<^verbatim>\<open>parts\<close> with the given entries, where the
  operator confirms. Three worlds: no state file; the state file as init leaves it;
  the state file after one part has been recorded.
\<close>

definition example_client :: "int \<Rightarrow> string \<Rightarrow> s3_client" where
  "example_client status etag =
     \<lparr>create_multipart_upload = (\<lambda>bucket key sse.
         Inr (Json (JObj [(''Bucket'', JStr bucket), (''Key'', JStr key),
                          (''UploadId'', JStr ''U1'')]))),
      upload_part = (\<lambda>bucket key upload_id n body. Inr (JObj [(''ETag'', JStr etag)])),
      abort_multipart_upload = (\<lambda>bucket key upload_id.
         Inr (JObj [(''ResponseMetadata'', JObj [(''HTTPStatusCode'', JInt status)])])),
      complete_multipart_upload = (\<lambda>bucket key upload_id mpu.
         Inr (JObj [(''ResponseMetadata'', JObj [(''HTTPStatusCode'', JInt status)])]))\<rparr>"

definition denying_client :: s3_client where
  "denying_client =
     \<lparr>create_multipart_upload = (\<lambda>bucket key sse. Inl (ClientError ''AccessDenied'')),
      upload_part = (\<lambda>bucket key upload_id n body. Inl (ClientError ''AccessDenied'')),
      abort_multipart_upload = (\<lambda>bucket key upload_id. Inl (ClientError ''AccessDenied'')),
      complete_multipart_upload = (\<lambda>bucket key upload_id mpu. Inl (ClientError ''AccessDenied''))\<rparr>"

definition example_env :: "s3_client \<Rightarrow> string list \<Rightarrow> env" where
  "example_env client names =
     \<lparr>s3 = client,
      is_dir = (\<lambda>p. p = ''parts''),
      iterdir = (\<lambda>p. if p = ''parts'' then names else []),
      open_rb = (\<lambda>p name. Inr (''bytes of '' @ name)),
      confirm = True\<rparr>"

definition no_session :: world where
  "no_session = \<lparr>multipart_file = None, s3_calls = [], echoed = []\<rparr>"

definition fresh_session :: world where
  "fresh_session =
     \<lparr>multipart_file = Some (Doc (JObj [(''Bucket'', JStr ''bucket1''), (''Key'', JStr ''obj.bin''),
                                        (''UploadId'', JStr ''U1'')])),
      s3_calls = [], echoed = []\<rparr>"

definition resumed_session :: world where
  "resumed_session =
     \<lparr>multipart_file = Some (Doc (JObj [(''Bucket'', JStr ''bucket1''), (''Key'', JStr ''obj.bin''),
                                        (''UploadId'', JStr ''U1''),
                                        (''Parts'', JList [JObj [(''ETag'', JStr ''9b2cf5''),
                                                                 (''PartNumber'', JInt 1)]])])),
      s3_calls = [], echoed = []\<rparr>"

section \<open>Properties\<close>

subsection \<open>Digits, numbers and the order of strings\<close>

lemma is_digit_range: "is_digit c \<longleftrightarrow> 48 \<le> (of_char c :: nat) \<and> (of_char c :: nat) \<le> 57"
  by (simp add: is_digit_def less_eq_char_def)

lemma digit_val_bounds: "is_digit c \<Longrightarrow> 0 \<le> digit_val c \<and> digit_val c \<le> 9"
  by (auto simp: is_digit_range digit_val_def)

lemma digit_val_less: "c < d \<longleftrightarrow> digit_val c < digit_val d"
  by (simp add: less_char_def digit_val_def)

lemma digit_not_space: "is_digit c \<Longrightarrow> \<not> is_space c"
  by (auto simp: is_digit_range is_space_def Let_def)

lemma digit_not_special:
  "is_digit c \<Longrightarrow> c \<noteq> CHR ''+'' \<and> c \<noteq> CHR ''-'' \<and> c \<noteq> CHR ''_''"
  by (auto simp: is_digit_range)

lemma foldl_base10:
  "foldl (\<lambda>a c. 10 * a + digit_val c) a ds = a * 10 ^ length ds + base10 ds"
proof (induction ds arbitrary: a)
  case Nil
  then show ?case by (simp add: base10_def)
next
  case (Cons d ds)
  let ?f = "\<lambda>a c. 10 * a + digit_val c"
  have "foldl ?f a (d # ds) = (10 * a + digit_val d) * 10 ^ length ds + base10 ds"
    using Cons.IH [of "10 * a + digit_val d"] by simp
  moreover have "base10 (d # ds) = digit_val d * 10 ^ length ds + base10 ds"
    using Cons.IH [of "digit_val d"] by (simp add: base10_def)
  ultimately show ?case by (simp add: algebra_simps)
qed

lemma base10_Cons: "base10 (c # cs) = digit_val c * 10 ^ length cs + base10 cs"
  using foldl_base10 [of "digit_val c" cs] by (simp add: base10_def)

lemma base10_bounds:
  "list_all is_digit cs \<Longrightarrow> 0 \<le> base10 cs \<and> base10 cs < 10 ^ length cs"
proof (induction cs)
  case Nil
  then show ?case by (simp add: base10_def)
next
  case (Cons c cs)
  define p :: int where "p = 10 ^ length cs"
  from Cons have b: "0 \<le> digit_val c" "digit_val c \<le> 9"
    and ih: "0 \<le> base10 cs" "base10 cs < p"
    by (simp_all add: digit_val_bounds p_def)
  have "0 \<le> p" by (simp add: p_def)
  then have "digit_val c * p \<le> 9 * p" "0 \<le> digit_val c * p"
    using b by (simp_all add: mult_right_mono)
  with ih have "0 \<le> digit_val c * p + base10 cs \<and> digit_val c * p + base10 cs < 10 * p"
    by linarith
  then show ?case by (simp add: base10_Cons p_def)
qed

text \<open>Between digit strings of one length, the order of strings is the order of numbers.\<close>

lemma base10_mono:
  assumes "length ds = length es" and "list_all is_digit ds" and "list_all is_digit es"
    and "ds < es"
  shows "base10 ds < base10 es"
  using assms
proof (induction ds es rule: list_induct2)
  case Nil
  then show ?case by simp
next
  case (Cons d ds e es)
  define p :: int where "p = 10 ^ length es"
  from Cons.prems have dd: "list_all is_digit ds" and de: "list_all is_digit es"
    by simp_all
  have eq: "base10 (d # ds) = digit_val d * p + base10 ds"
    "base10 (e # es) = digit_val e * p + base10 es"
    using Cons.hyps by (simp_all add: base10_Cons p_def)
  from Cons.prems(3) have "d < e \<or> (d = e \<and> ds < es)" by simp
  then show ?case
  proof
    assume "d < e"
    then have "digit_val d + 1 \<le> digit_val e" by (simp add: digit_val_less)
    moreover have "0 \<le> p" by (simp add: p_def)
    ultimately have "(digit_val d + 1) * p \<le> digit_val e * p"
      by (rule mult_right_mono)
    then have "digit_val d * p + p \<le> digit_val e * p" by (simp add: algebra_simps)
    moreover have "base10 ds < p"
      using base10_bounds [OF dd] Cons.hyps by (simp add: p_def)
    moreover have "0 \<le> base10 es" using base10_bounds [OF de] by simp
    ultimately show ?thesis unfolding eq by linarith
  next
    assume "d = e \<and> ds < es"
    with Cons.IH dd de show ?thesis unfolding eq by simp
  qed
qed

lemma append_less_cancel: "(s @ a < s @ b) = (a < (b :: string))"
  by (induction s) simp_all

lemma digits_us_digits: "cs \<noteq> [] \<Longrightarrow> list_all is_digit cs \<Longrightarrow> digits_us cs = Some cs"
proof (induction cs rule: digits_us.induct)
  case 1
  then show ?case by simp
next
  case (2 c)
  then show ?case by simp
next
  case (3 c d r)
  from "3.prems" have c: "is_digit c" and d: "is_digit d" and r: "list_all is_digit (d # r)"
    by simp_all
  from d have "d \<noteq> CHR ''_''" using digit_not_special by blast
  with "3.IH"(2) [OF c this] r have "digits_us (d # r) = Some (d # r)" by simp
  with c \<open>d \<noteq> CHR ''_''\<close> show ?case by simp
qed

lemma strip_digits:
  assumes "cs \<noteq> []" and "list_all is_digit cs"
  shows "strip cs = cs"
proof -
  from assms have "\<not> is_space (hd cs)" "\<not> is_space (last cs)"
    by (auto simp: list_all_iff digit_not_space)
  with assms(1) have "dropWhile is_space cs = cs" 
    by (cases cs) simp_all
  moreover from assms(1) \<open>\<not> is_space (last cs)\<close> have "dropWhile is_space (rev cs) = rev cs"
    by (cases "rev cs") (simp_all add: hd_rev [symmetric])
  ultimately show ?thesis by (simp add: strip_def)
qed

text \<open>On a string of digits, \<^verbatim>\<open>int\<close> is the number the digits write in base 10.\<close>

lemma py_int_digits:
  assumes "cs \<noteq> []" and "list_all is_digit cs"
  shows "py_int cs = Inr (base10 cs)"
proof -
  obtain c r where cs: "cs = c # r" using assms(1) by (cases cs) auto
  with assms(2) have "is_digit c" by simp
  then have "c \<noteq> CHR ''+''" "c \<noteq> CHR ''-''" using digit_not_special by blast+
  moreover have "strip (c # r) = c # r" "digits_us (c # r) = Some (c # r)"
    using assms strip_digits digits_us_digits unfolding cs by blast+
  ultimately show ?thesis
    by (simp add: py_int_def cs)
qed

lemma stem_suffix: "stem f @ suffix f = f"
  by (simp add: stem_def suffix_def split: option.splits)

lemma spec_part_fileD:
  assumes "spec_part_file f"
  obtains ds where "suffix f = CHR ''.'' # ds" and "ds \<noteq> []" and "list_all is_digit ds"
  using assms by (auto simp: spec_part_file_def split: list.splits)

lemma spec_part_file_matches: "spec_part_file f \<Longrightarrow> re_match_dot_digits (suffix f) \<noteq> None"
proof -
  assume "spec_part_file f"
  then obtain ds where s: "suffix f = CHR ''.'' # ds" and ne: "ds \<noteq> []" and d: "list_all is_digit ds"
    by (rule spec_part_fileD)
  from ne d have "takeWhile is_digit ds \<noteq> []" by (cases ds) simp_all
  then show ?thesis by (simp add: re_match_dot_digits_def s)
qed

lemma spec_part_file_number:
  "spec_part_file f \<Longrightarrow> part_number f = Inr (base10 (drop 1 (suffix f)))"
  by (erule spec_part_fileD) (simp add: part_number_def py_int_digits)

lemma part_names_less:
  assumes f: "spec_part_file f" and g: "spec_part_file g"
    and st: "stem f = stem g" and len: "length (suffix f) = length (suffix g)"
    and less: "f < g"
  shows "base10 (drop 1 (suffix f)) < base10 (drop 1 (suffix g))"
proof -
  from f obtain df where sf: "suffix f = CHR ''.'' # df" and df: "list_all is_digit df"
    by (rule spec_part_fileD)
  from g obtain dg where sg: "suffix g = CHR ''.'' # dg" and dg: "list_all is_digit dg"
    by (rule spec_part_fileD)
  have "stem f @ suffix f < stem g @ suffix g"
    using less by (simp only: stem_suffix)
  then have "df < dg"
    by (simp add: st sf sg append_less_cancel)
  moreover have "length df = length dg" using len by (simp add: sf sg)
  ultimately show ?thesis
    using df dg by (simp add: sf sg base10_mono)
qed

subsection \<open>The loop of upload\<close>

lemma map_of_setitem: "map_of (setitem d k v) k' = (if k' = k then Some v else map_of d k')"
  by (induction d) auto

lemma record_part_Returned:
  assumes "record_part p w = (w', Returned)"
  shows "\<exists>data data'. multipart_file w = Some (Doc data) \<and>
           w' = w\<lparr>multipart_file := Some (Doc data')\<rparr> \<and>
           completed_parts data' = completed_parts data @ [part_entry p]"
proof (cases "multipart_file w")
  case None
  with assms show ?thesis by (simp add: record_part_def)
next
  case (Some f)
  show ?thesis
  proof (cases f)
    case Blank
    with assms Some show ?thesis by (simp add: record_part_def)
  next
    case (Doc data)
    show ?thesis
    proof (cases data)
      case (JObj d)
      show ?thesis
      proof (cases "map_of d ''Parts''")
        case None
        with assms Some Doc JObj show ?thesis
          by (auto simp: record_part_def add_list_def completed_parts_def getitem_def
              map_of_setitem)
      next
        case (Some v)
        with assms \<open>multipart_file w = Some f\<close> Doc JObj show ?thesis
          by (cases v)
            (auto simp: record_part_def add_list_def completed_parts_def getitem_def
              map_of_setitem)
      qed
    qed (use assms Some Doc in \<open>simp_all add: record_part_def\<close>)
  qed
qed

lemma upload_one_Returned:
  assumes "upload_one env src bucket key upload_id part w = (w', Returned)"
  shows "\<exists>p data data'. snd (transfer env src bucket key upload_id part) = Inr p \<and>
           multipart_file w = Some (Doc data) \<and> multipart_file w' = Some (Doc data') \<and>
           completed_parts data' = completed_parts data @ [part_entry p]"
proof -
  obtain called r where t: "transfer env src bucket key upload_id part = (called, r)"
    by (cases "transfer env src bucket key upload_id part")
  show ?thesis
  proof (cases r)
    case (Inl e)
    with assms t show ?thesis by (simp add: upload_one_def)
  next
    case (Inr p)
    with assms t have "record_part p (w\<lparr>s3_calls := s3_calls w @ called\<rparr>) = (w', Returned)"
      by (simp add: upload_one_def)
    from record_part_Returned [OF this] t Inr show ?thesis by auto
  qed
qed

text \<open>
  The ETag that a part leaves in the record is the ETag of the response without its
  first and its last character: the ETag itself, when the service has put it between
  double quotes.
\<close>

lemma upload_one_records_etag:
  assumes "upload_one env src bucket key upload_id part w = (w', Returned)"
    and "part_number part = Inr n"
    and "open_rb env src part = Inr fp"
    and "upload_part (s3 env) bucket key upload_id n fp = Inr resp"
    and "getitem resp ''ETag'' = Inr (JStr t)"
  shows "\<exists>data data'.
           multipart_file w = Some (Doc data) \<and> multipart_file w' = Some (Doc data') \<and>
           completed_parts data' =
             completed_parts data @ [JObj [(''ETag'', JStr (butlast (tl t))), (''PartNumber'', JInt n)]] \<and>
           (t = quoted s \<longrightarrow>
              completed_parts data' =
                completed_parts data @ [JObj [(''ETag'', JStr s), (''PartNumber'', JInt n)]])"
proof -
  have t: "snd (transfer env src bucket key upload_id part) = Inr (JStr (butlast (tl t)), n)"
    using assms(2-5) by (simp add: transfer_def slice_1_m1_def)
  from upload_one_Returned [OF assms(1)] t
  obtain data data' where "multipart_file w = Some (Doc data)" "multipart_file w' = Some (Doc data')"
    "completed_parts data' = completed_parts data @ [part_entry (JStr (butlast (tl t)), n)]"
    by auto
  moreover have "butlast (tl (quoted s)) = s" by (simp add: quoted_def)
  ultimately show ?thesis by (auto simp: part_entry_def)
qed



text \<open>
  With a state file that holds the three ids, a folder with parts in it and the
  operator's consent, upload is the loop over the parts found, after the echo of
  their names.
\<close>

lemma upload_runs_loop:
  assumes "multipart_file w = Some (Doc data)"
    and "read_ids data = Inr (bucket, key, upload_id)"
    and "is_dir env src"
    and "find_parts (iterdir env src) \<noteq> []"
    and "confirm env"
  shows "upload env src w =
           upload_parts env src bucket key upload_id (find_parts (iterdir env src))
             (foldl (\<lambda>w part. secho [Lit part] Blue w)
                (secho [Lit ''Found the following file parts in '', Lit src, Lit '':''] Green w)
                (find_parts (iterdir env src)))"
  using assms by (simp add: upload_def upload_body_def check_multipart_def Let_def)

lemma echo_keeps_file:
  "multipart_file (foldl (\<lambda>w part. secho [Lit part] Blue w) w parts) = multipart_file w"
  by (induction parts arbitrary: w) (simp_all add: secho_def)

subsection \<open>init and a response that JSON cannot write\<close>

text \<open>
  When the response of the service holds something JSON cannot write, init has
  emptied the state file by the time \<^verbatim>\<open>json.dumps\<close> raises: the file is left blank,
  whatever it held before, and the next command that loads it ends in a
  \<^verbatim>\<open>JSONDecodeError\<close>.
\<close>

lemma init_unwritable_response:
  assumes "create_multipart_upload (s3 env) bucket key ''AES256'' = Inr NotJson"
  shows "init env bucket key w =
           (w\<lparr>multipart_file := Some Blank,
              s3_calls := s3_calls w @ [CreateMultipartUpload bucket key ''AES256'']\<rparr>,
            Raised TypeError)"
  using assms by (simp add: init_def Let_def json_dumps_def)

lemma blank_file_is_not_loaded:
  assumes "multipart_file w = Some Blank"
  shows "upload env src w = (w, Raised JSONDecodeError)"
    and "abort env w = (w, Raised JSONDecodeError)"
    and "finalize env w = (w, Raised JSONDecodeError)"
  using assms
  by (simp_all add: upload_def upload_body_def abort_def abort_body_def finalize_def
      finalize_body_def check_multipart_def)

subsection \<open>C1: progress of upload is recorded part by part\<close>




subsection \<open>C2: the exit status after a rejection\<close>

text \<open>
  C2, as amended. Let the state file hold the three ids (and, for finalize, the
  parts). When the client returns to abort a response whose status code is not 204,
  abort has called the service once, echoes \<^verbatim>\<open>Bad HTTP response\<close> and the dump of the
  response in red, changes nothing else and returns normally: the exit status of the
  process is 0. When the call raises, abort ends with that exception, nothing is
  echoed and the exit status is 1. The same holds of finalize, with the status 200.
\<close>

theorem rejection_returns_normally:
  assumes "multipart_file w = Some (Doc data)"
    and "read_ids data = Inr (bucket, key, upload_id)"
  shows "(abort_multipart_upload (s3 env) bucket key upload_id = Inr resp \<and>
          http_status resp = Inr code \<and> code \<noteq> JInt 204 \<longrightarrow>
            abort env w =
              (w\<lparr>s3_calls := s3_calls w @ [AbortMultipartUpload bucket key upload_id],
                 echoed := echoed w @ [([Lit ''Bad HTTP response''], Red), ([Dumps resp], Red)]\<rparr>,
               Returned) \<and>
            exit_code (snd (abort env w)) = 0) \<and>
         (abort_multipart_upload (s3 env) bucket key upload_id = Inl e \<longrightarrow>
            abort env w =
              (w\<lparr>s3_calls := s3_calls w @ [AbortMultipartUpload bucket key upload_id]\<rparr>,
               Raised e) \<and>
            exit_code (snd (abort env w)) = 1) \<and>
         (getitem data ''Parts'' = Inr parts \<and>
          complete_multipart_upload (s3 env) bucket key upload_id (JObj [(''Parts'', parts)]) =
            Inr resp' \<and>
          http_status resp' = Inr code' \<and> code' \<noteq> JInt 200 \<longrightarrow>
            finalize env w =
              (w\<lparr>s3_calls := s3_calls w @
                   [CompleteMultipartUpload bucket key upload_id (JObj [(''Parts'', parts)])],
                 echoed := echoed w @ [([Lit ''Bad HTTP response''], Red), ([Dumps resp'], Red)]\<rparr>,
               Returned) \<and>
            exit_code (snd (finalize env w)) = 0) \<and>
         (getitem data ''Parts'' = Inr parts \<and>
          complete_multipart_upload (s3 env) bucket key upload_id (JObj [(''Parts'', parts)]) =
            Inl e' \<longrightarrow>
            finalize env w =
              (w\<lparr>s3_calls := s3_calls w @
                   [CompleteMultipartUpload bucket key upload_id (JObj [(''Parts'', parts)])]\<rparr>,
               Raised e') \<and>
            exit_code (snd (finalize env w)) = 1)"
  using assms
  by (simp add: abort_def abort_body_def finalize_def finalize_body_def check_multipart_def
      Let_def secho_def)

text \<open>
  The statement at work on a session with one part recorded: a service that answers
  abort and complete with status 403, and a client that raises on every call.
\<close>

theorem rejection_returns_normally_witness:
  "abort (example_env (example_client 403 (quoted ''9b2cf5'')) []) resumed_session =
     (resumed_session
        \<lparr>s3_calls := [AbortMultipartUpload (JStr ''bucket1'') (JStr ''obj.bin'') (JStr ''U1'')],
          echoed := [([Lit ''Bad HTTP response''], Red),
                     ([Dumps (JObj [(''ResponseMetadata'', JObj [(''HTTPStatusCode'', JInt 403)])])],
                      Red)]\<rparr>,
      Returned) \<and>
   exit_code (snd (abort (example_env (example_client 403 (quoted ''9b2cf5'')) []) resumed_session)) = 0 \<and>
   snd (finalize (example_env (example_client 403 (quoted ''9b2cf5'')) []) resumed_session) = Returned \<and>
   echoed (fst (finalize (example_env (example_client 403 (quoted ''9b2cf5'')) []) resumed_session)) =
     [([Lit ''Bad HTTP response''], Red),
      ([Dumps (JObj [(''ResponseMetadata'', JObj [(''HTTPStatusCode'', JInt 403)])])], Red)] \<and>
   exit_code (snd (finalize (example_env (example_client 403 (quoted ''9b2cf5'')) []) resumed_session)) = 0 \<and>
   snd (abort (example_env denying_client []) resumed_session) = Raised (ClientError ''AccessDenied'') \<and>
   exit_code (snd (abort (example_env denying_client []) resumed_session)) = 1 \<and>
   snd (finalize (example_env denying_client []) resumed_session) = Raised (ClientError ''AccessDenied'') \<and>
   exit_code (snd (finalize (example_env denying_client []) resumed_session)) = 1"
proof -
  let ?data = "JObj [(''Bucket'', JStr ''bucket1''), (''Key'', JStr ''obj.bin''),
                 (''UploadId'', JStr ''U1''),
                 (''Parts'', JList [JObj [(''ETag'', JStr ''9b2cf5''), (''PartNumber'', JInt 1)]])]"
  let ?resp = "JObj [(''ResponseMetadata'', JObj [(''HTTPStatusCode'', JInt 403)])]"
  have f: "multipart_file resumed_session = Some (Doc ?data)"
    by (simp add: resumed_session_def)
  have i: "read_ids ?data = Inr (JStr ''bucket1'', JStr ''obj.bin'', JStr ''U1'')"
    by (simp add: read_ids_def getitem_def)
  have p: "getitem ?data ''Parts'' =
      Inr (JList [JObj [(''ETag'', JStr ''9b2cf5''), (''PartNumber'', JInt 1)]])"
    by (simp add: getitem_def)
  have s: "http_status ?resp = Inr (JInt 403)"
    by (simp add: http_status_def getitem_def)
  have c: "s3_calls resumed_session = []" and e: "echoed resumed_session = []"
    by (simp_all add: resumed_session_def)
  show ?thesis
    using s p c e
      rejection_returns_normally [OF f i,
        of "example_env (example_client 403 (quoted ''9b2cf5'')) []" ?resp "JInt 403" _ _ ?resp "JInt 403"]
      rejection_returns_normally [OF f i, of "example_env denying_client []" _ _
        "ClientError ''AccessDenied''" _ _ _ "ClientError ''AccessDenied''"]
    by (simp add: example_env_def example_client_def denying_client_def)
qed

text \<open>
  C2 as it is written asks for an exit status other than 0. An abort that the service
  answers with status 500 returns, and the process exits with 0.
\<close>

theorem rejected_abort_exits_zero:
  "http_status (JObj [(''ResponseMetadata'', JObj [(''HTTPStatusCode'', JInt 500)])]) = Inr (JInt 500) \<and>
   abort_multipart_upload (example_client 500 (quoted ''9b2cf5''))
     (JStr ''bucket1'') (JStr ''obj.bin'') (JStr ''U1'') =
     Inr (JObj [(''ResponseMetadata'', JObj [(''HTTPStatusCode'', JInt 500)])]) \<and>
   snd (abort (example_env (example_client 500 (quoted ''9b2cf5'')) []) fresh_session) = Returned \<and>
   exit_code (snd (abort (example_env (example_client 500 (quoted ''9b2cf5'')) []) fresh_session)) = 0"
  by (simp add: abort_def abort_body_def check_multipart_def fresh_session_def example_env_def
      example_client_def read_ids_def getitem_def http_status_def secho_def)

subsection \<open>C3: the parts in the order of their numbers\<close>

text \<open>
  C3, as amended. Let the entries of the folder be distinct names, as the entries of a
  folder are. Let the part files among them all have one stem and extensions of one
  length, and let no other entry have an extension that begins with a dot and a digit.
  Then upload finds exactly the part files, the part number of each is the number its
  extension writes in base 10, and the part numbers come in strictly ascending order.
\<close>

theorem parts_in_numeric_order:
  assumes dist: "distinct names"
    and same: "\<forall>f\<in>set names. spec_part_file f \<longrightarrow> stem f = s \<and> length (suffix f) = Suc w"
    and others: "\<forall>f\<in>set names. \<not> spec_part_file f \<longrightarrow> re_match_dot_digits (suffix f) = None"
  shows "length (find_parts names) = length (filter spec_part_file names) \<and>
         set (find_parts names) = {f \<in> set names. spec_part_file f} \<and>
         map part_number (find_parts names) =
           map (\<lambda>f. Inr (base10 (drop 1 (suffix f)))) (find_parts names) \<and>
         sorted_wrt (<) (map (\<lambda>f. base10 (drop 1 (suffix f))) (find_parts names))"
proof -
  have sel: "filter (\<lambda>f. re_match_dot_digits (suffix f) \<noteq> None) names = filter spec_part_file names"
    using others spec_part_file_matches by (intro filter_cong) auto
  then have fp: "find_parts names = sort (filter spec_part_file names)"
    by (simp add: find_parts_def)
  have mem: "set (find_parts names) = {f \<in> set names. spec_part_file f}"
    by (auto simp: fp)
  have "sorted_wrt (<) (find_parts names)"
    using dist by (simp add: fp strict_sorted_iff)
  then have "sorted_wrt (\<lambda>f g. base10 (drop 1 (suffix f)) < base10 (drop 1 (suffix g)))
               (find_parts names)"
  proof (rule sorted_wrt_mono_rel [rotated])
    fix f g
    assume "f \<in> set (find_parts names)" and "g \<in> set (find_parts names)" and "f < g"
    with mem same show "base10 (drop 1 (suffix f)) < base10 (drop 1 (suffix g))"
      by (intro part_names_less) auto
  qed
  then have "sorted_wrt (<) (map (\<lambda>f. base10 (drop 1 (suffix f))) (find_parts names))"
    by (simp add: sorted_wrt_map)
  moreover have "map part_number (find_parts names) =
      map (\<lambda>f. Inr (base10 (drop 1 (suffix f)))) (find_parts names)"
    using mem by (intro map_cong) (auto simp: spec_part_file_number)
  moreover have "length (find_parts names) = length (filter spec_part_file names)"
    by (simp add: fp)
  ultimately show ?thesis using mem by simp
qed

theorem parts_in_numeric_order_witness:
  "length (find_parts [''obj.10'', ''readme.txt'', ''obj.02'', ''obj.01'']) = 3 \<and>
   map part_number (find_parts [''obj.10'', ''readme.txt'', ''obj.02'', ''obj.01'']) =
     [Inr 1, Inr 2, Inr 10]"
proof -
  let ?names = "[''obj.10'', ''readme.txt'', ''obj.02'', ''obj.01'']"
  have d: "distinct ?names" by simp
  have s: "\<forall>f\<in>set ?names. spec_part_file f \<longrightarrow> stem f = ''obj'' \<and> length (suffix f) = Suc 2"
    by code_simp
  have o: "\<forall>f\<in>set ?names. \<not> spec_part_file f \<longrightarrow> re_match_dot_digits (suffix f) = None"
    by code_simp
  have n: "length (filter spec_part_file ?names) = 3"
    by code_simp
  have m: "map (\<lambda>f. Inr (base10 (drop 1 (suffix f)))) (find_parts ?names) =
      [Inr 1, Inr 2, Inr 10 :: exn + int]"
    by code_simp
  from parts_in_numeric_order [OF d s o] n m show ?thesis
    by (simp only:)
qed

text \<open>
  C3 as it is written asks of the part files nothing but extensions of one length.
  The parts are sorted by their whole names, so two part files with different stems
  come in the order of the stems: here number 2 before number 1.
\<close>

theorem parts_sorted_by_name_not_number:
  "spec_part_file ''b.01'' \<and> spec_part_file ''a.02'' \<and>
   length (suffix ''b.01'') = length (suffix ''a.02'') \<and>
   find_parts [''b.01'', ''a.02''] = [''a.02'', ''b.01''] \<and>
   map part_number (find_parts [''b.01'', ''a.02'']) = [Inr 2, Inr 1]"
  by code_simp

subsection \<open>C4: which entries count as parts\<close>

text \<open>
  C4. The pattern is matched at the start of the extension and asks nothing of its
  end, so an entry whose extension goes on after the digits is taken for a part;
  \<^verbatim>\<open>int\<close> then rejects the extension, and upload ends in a \<^verbatim>\<open>ValueError\<close>.
\<close>

theorem stray_extension_is_selected:
  "find_parts [''notes.2txt'', ''obj.01'', ''obj.02''] = [''notes.2txt'', ''obj.01'', ''obj.02''] \<and>
   \<not> spec_part_file ''notes.2txt'' \<and>
   part_number ''notes.2txt'' = Inl ValueError \<and>
   snd (upload (example_env (example_client 200 (quoted ''9b2cf5'')) [''notes.2txt'', ''obj.01'', ''obj.02''])
          ''parts'' fresh_session) = Raised ValueError"
  by code_simp

subsection \<open>C5: init over an active session\<close>

text \<open>
  C5, as amended. init does not look for a state file, and no call of init is rejected
  for the session that is active. Whenever the service returns a response that JSON
  can write, init has called the service once, the state file holds that response
  afterwards, whatever it held before, the start of the upload is echoed, and init
  returns normally.
\<close>

theorem init_writes_response:
  assumes "create_multipart_upload (s3 env) bucket key ''AES256'' = Inr (Json mpupload)"
  shows "init env bucket key w =
           (w\<lparr>multipart_file := Some (Doc mpupload),
              s3_calls := s3_calls w @ [CreateMultipartUpload bucket key ''AES256''],
              echoed := echoed w @ [([Lit ''Started multipart upload for s3://'', Lit bucket,
                                      Lit ''/'', Lit key], Green)]\<rparr>,
            Returned) \<and>
         multipart_file (fst (init env bucket key w)) = Some (Doc mpupload) \<and>
         exit_code (snd (init env bucket key w)) = 0"
  using assms by (simp add: init_def Let_def secho_def json_dumps_def)

text \<open>
  The statement at work on an active session: the record of the upload \<^verbatim>\<open>obj.bin\<close> in
  \<^verbatim>\<open>bucket1\<close> gives way to the response for \<^verbatim>\<open>other.bin\<close> in \<^verbatim>\<open>bucket2\<close>.
\<close>

theorem init_writes_response_witness:
  "multipart_file fresh_session =
     Some (Doc (JObj [(''Bucket'', JStr ''bucket1''), (''Key'', JStr ''obj.bin''),
                      (''UploadId'', JStr ''U1'')])) \<and>
   multipart_file (fst (init (example_env (example_client 200 (quoted ''9b2cf5'')) [])
                          ''bucket2'' ''other.bin'' fresh_session)) =
     Some (Doc (JObj [(''Bucket'', JStr ''bucket2''), (''Key'', JStr ''other.bin''),
                      (''UploadId'', JStr ''U1'')])) \<and>
   snd (init (example_env (example_client 200 (quoted ''9b2cf5'')) [])
          ''bucket2'' ''other.bin'' fresh_session) = Returned"
proof -
  have h: "create_multipart_upload (s3 (example_env (example_client 200 (quoted ''9b2cf5'')) []))
      ''bucket2'' ''other.bin'' ''AES256'' =
     Inr (Json (JObj [(''Bucket'', JStr ''bucket2''), (''Key'', JStr ''other.bin''),
                      (''UploadId'', JStr ''U1'')]))"
    by (simp add: example_env_def example_client_def)
  have f: "multipart_file fresh_session =
     Some (Doc (JObj [(''Bucket'', JStr ''bucket1''), (''Key'', JStr ''obj.bin''),
                      (''UploadId'', JStr ''U1'')]))"
    by (simp add: fresh_session_def)
  show ?thesis
    using f init_writes_response [OF h, of fresh_session] by simp
qed

text \<open>
  C5 as it is written asks that init be rejected while a session is active. Here init
  runs on an active session: it returns, and the record of the first session is gone.
\<close>

theorem init_overwrites_active_session:
  "multipart_file fresh_session =
     Some (Doc (JObj [(''Bucket'', JStr ''bucket1''), (''Key'', JStr ''obj.bin''), (''UploadId'', JStr ''U1'')])) \<and>
   init (example_env (example_client 200 (quoted ''9b2cf5'')) []) ''bucket2'' ''other.bin'' fresh_session =
     (\<lparr>multipart_file =
         Some (Doc (JObj [(''Bucket'', JStr ''bucket2''), (''Key'', JStr ''other.bin''),
                     (''UploadId'', JStr ''U1'')])),
       s3_calls = [CreateMultipartUpload ''bucket2'' ''other.bin'' ''AES256''],
       echoed = [([Lit ''Started multipart upload for s3://'', Lit ''bucket2'', Lit ''/'',
                   Lit ''other.bin''], Green)]\<rparr>,
      Returned)"
  by (simp add: init_def fresh_session_def example_env_def example_client_def secho_def
      json_dumps_def)

subsection \<open>C6: the state file after abort and finalize\<close>

text \<open>
  C6. Let the state file hold the three ids (and, for finalize, the parts). Whenever
  the service returns a response to abort, the state file is removed if the status of
  the response is 204, and holds what it held otherwise; if the response has another
  status, the lines echoed are \<^verbatim>\<open>Bad HTTP response\<close> and the dump of the response. The
  same holds of finalize with the status 200.
\<close>

theorem terminal_commands_delete_only_on_confirmation:
  assumes "multipart_file w = Some (Doc data)"
    and "read_ids data = Inr (bucket, key, upload_id)"
  shows "(abort_multipart_upload (s3 env) bucket key upload_id = Inr resp \<longrightarrow>
            multipart_file (fst (abort env w)) =
              (if http_status resp = Inr (JInt 204) then None else Some (Doc data)) \<and>
            (http_status resp = Inr code \<and> code \<noteq> JInt 204 \<longrightarrow>
               echoed (fst (abort env w)) =
                 echoed w @ [([Lit ''Bad HTTP response''], Red), ([Dumps resp], Red)])) \<and>
         (getitem data ''Parts'' = Inr parts \<and>
          complete_multipart_upload (s3 env) bucket key upload_id (JObj [(''Parts'', parts)]) =
            Inr resp' \<longrightarrow>
            multipart_file (fst (finalize env w)) =
              (if http_status resp' = Inr (JInt 200) then None else Some (Doc data)) \<and>
            (http_status resp' = Inr code' \<and> code' \<noteq> JInt 200 \<longrightarrow>
               echoed (fst (finalize env w)) =
                 echoed w @ [([Lit ''Bad HTTP response''], Red), ([Dumps resp'], Red)]))"
  using assms
  by (auto simp: abort_def abort_body_def finalize_def finalize_body_def check_multipart_def
      Let_def secho_def split: sum.splits)

theorem terminal_commands_delete_only_on_confirmation_witness:
  "multipart_file (fst (abort (example_env (example_client 204 (quoted ''9b2cf5'')) []) resumed_session)) = None \<and>
   multipart_file (fst (finalize (example_env (example_client 200 (quoted ''9b2cf5'')) []) resumed_session)) = None \<and>
   multipart_file (fst (finalize (example_env (example_client 500 (quoted ''9b2cf5'')) []) resumed_session)) =
     multipart_file resumed_session \<and>
   echoed (fst (finalize (example_env (example_client 500 (quoted ''9b2cf5'')) []) resumed_session)) =
     [([Lit ''Bad HTTP response''], Red),
      ([Dumps (JObj [(''ResponseMetadata'', JObj [(''HTTPStatusCode'', JInt 500)])])], Red)]"
proof -
  let ?data = "JObj [(''Bucket'', JStr ''bucket1''), (''Key'', JStr ''obj.bin''),
                 (''UploadId'', JStr ''U1''),
                 (''Parts'', JList [JObj [(''ETag'', JStr ''9b2cf5''), (''PartNumber'', JInt 1)]])]"
  have f: "multipart_file resumed_session = Some (Doc ?data)"
    by (simp add: resumed_session_def)
  have i: "read_ids ?data = Inr (JStr ''bucket1'', JStr ''obj.bin'', JStr ''U1'')"
    by (simp add: read_ids_def getitem_def)
  have p: "getitem ?data ''Parts'' =
      Inr (JList [JObj [(''ETag'', JStr ''9b2cf5''), (''PartNumber'', JInt 1)]])"
    by (simp add: getitem_def)
  have s: "http_status (JObj [(''ResponseMetadata'', JObj [(''HTTPStatusCode'', JInt c)])]) = Inr (JInt c)"
    for c by (simp add: http_status_def getitem_def)
  have e: "echoed resumed_session = []" by (simp add: resumed_session_def)
  show ?thesis
    using f p e s [of 204] s [of 200] s [of 500]
      terminal_commands_delete_only_on_confirmation [OF f i,
        of "example_env (example_client 204 (quoted ''9b2cf5'')) []"
           "JObj [(''ResponseMetadata'', JObj [(''HTTPStatusCode'', JInt 204)])]"]
      terminal_commands_delete_only_on_confirmation [OF f i,
        of "example_env (example_client 200 (quoted ''9b2cf5'')) []" _ _ _
           "JObj [(''ResponseMetadata'', JObj [(''HTTPStatusCode'', JInt 200)])]"]
      terminal_commands_delete_only_on_confirmation [OF f i,
        of "example_env (example_client 500 (quoted ''9b2cf5'')) []" _ _ _
           "JObj [(''ResponseMetadata'', JObj [(''HTTPStatusCode'', JInt 500)])]" "JInt 500"]
    by (simp add: example_env_def example_client_def)
qed

subsection \<open>C7: commands without a session\<close>

text \<open>
  C7. Without a state file, each of upload, abort and finalize echoes that no
  multipart upload is in progress, exits with status 1, and has called no operation of
  the service.
\<close>

theorem no_session_fails_before_any_call:
  assumes "multipart_file w = None"
    and "r \<in> {upload env src w, abort env w, finalize env w}"
  shows "snd r = SysExit 1 \<and> exit_code (snd r) \<noteq> 0 \<and> s3_calls (fst r) = s3_calls w \<and>
         multipart_file (fst r) = None \<and>
         echoed (fst r) = echoed w @ [([Lit ''No active multipart upload in progress!''], Red)]"
  using assms
  by (auto simp: upload_def abort_def finalize_def check_multipart_def error_def secho_def)

theorem no_session_fails_before_any_call_witness:
  "multipart_file no_session = None \<and>
   snd (upload (example_env denying_client []) ''parts'' no_session) = SysExit 1 \<and>
   snd (abort (example_env denying_client []) no_session) = SysExit 1 \<and>
   snd (finalize (example_env denying_client []) no_session) = SysExit 1 \<and>
   s3_calls (fst (finalize (example_env denying_client []) no_session)) = []"
proof -
  have f: "multipart_file no_session = None" and c: "s3_calls no_session = []"
    by (simp_all add: no_session_def)
  show ?thesis
    using f c
      no_session_fails_before_any_call [OF f, of "upload (example_env denying_client []) ''parts'' no_session"
        "example_env denying_client []" "''parts''"]
      no_session_fails_before_any_call [OF f, of "abort (example_env denying_client []) no_session"
        "example_env denying_client []" "''parts''"]
      no_session_fails_before_any_call [OF f, of "finalize (example_env denying_client []) no_session"
        "example_env denying_client []" "''parts''"]
    by simp
qed

subsection \<open>C8: the ETag that is recorded\<close>

text \<open>
  C8. The slice \<^verbatim>\<open>[1:-1]\<close> drops the first and the last character of the ETag whatever
  they are. The service answers the upload of a part with the ETag \<^verbatim>\<open>abc\<close>, which has no
  quotes around it; the entry recorded holds \<^verbatim>\<open>b\<close>, not \<^verbatim>\<open>abc\<close>.
\<close>

theorem unquoted_etag_is_cut:
  "upload_part (s3 (example_env (example_client 200 ''abc'') [''obj.01'']))
     (JStr ''bucket1'') (JStr ''obj.bin'') (JStr ''U1'') 1 ''bytes of obj.01'' =
     Inr (JObj [(''ETag'', JStr ''abc'')]) \<and>
   multipart_file (fst (upload (example_env (example_client 200 ''abc'') [''obj.01'']) ''parts''
                          fresh_session)) =
     Some (Doc (JObj [(''Bucket'', JStr ''bucket1''), (''Key'', JStr ''obj.bin''), (''UploadId'', JStr ''U1''),
                 (''Parts'', JList [JObj [(''ETag'', JStr ''b''), (''PartNumber'', JInt 1)]])]))"
  by code_simp

subsection \<open>C9: a failed init writes nothing\<close>

text \<open>
  C9. When the call that creates the session raises, init ends with that exception,
  the state file is what it was before (none, if there was none) and nothing has been
  echoed.
\<close>

theorem init_failure_writes_nothing:
  assumes "create_multipart_upload (s3 env) bucket key ''AES256'' = Inl e"
  shows "multipart_file (fst (init env bucket key w)) = multipart_file w \<and>
         echoed (fst (init env bucket key w)) = echoed w \<and>
         snd (init env bucket key w) = Raised e \<and>
         exit_code (snd (init env bucket key w)) = 1"
  using assms by (simp add: init_def Let_def)

theorem init_failure_writes_nothing_witness:
  "create_multipart_upload (s3 (example_env denying_client [])) ''bucket1'' ''obj.bin'' ''AES256'' =
     Inl (ClientError ''AccessDenied'') \<and>
   multipart_file (fst (init (example_env denying_client []) ''bucket1'' ''obj.bin'' no_session)) = None \<and>
   snd (init (example_env denying_client []) ''bucket1'' ''obj.bin'' no_session) =
     Raised (ClientError ''AccessDenied'')"
proof -
  have h: "create_multipart_upload (s3 (example_env denying_client [])) ''bucket1'' ''obj.bin'' ''AES256'' =
     Inl (ClientError ''AccessDenied'')"
    by (simp add: example_env_def denying_client_def)
  show ?thesis
    using h init_failure_writes_nothing [OF h, of no_session]
    by (simp add: no_session_def)
qed

subsection \<open>C10: finalize before any part\<close>

text \<open>
  C10. When the state file holds a record without the key \<^verbatim>\<open>Parts\<close>, finalize ends
  with a \<^verbatim>\<open>KeyError\<close>, for the first of the four keys it looks up that the record lacks,
  and leaves the world as it was: it has called no operation of the service. This is
  the case right after init, when the response of the service has no such key:
  the only operation called then is the one init called.
\<close>

theorem finalize_without_parts_raises:
  assumes "multipart_file w = Some (Doc (JObj d))"
    and "map_of d ''Parts'' = None"
  shows "finalize env w =
           (w, Raised (KeyError (hd (filter (\<lambda>k. map_of d k = None)
                                       [''Bucket'', ''Key'', ''UploadId'', ''Parts''])))) \<and>
         (\<exists>k. snd (finalize env w) = Raised (KeyError k)) \<and>
         s3_calls (fst (finalize env w)) = s3_calls w \<and>
         (create_multipart_upload (s3 env) bucket key ''AES256'' = Inr (Json (JObj d)) \<longrightarrow>
            (\<exists>k. snd (finalize env (fst (init env bucket key w0))) = Raised (KeyError k)) \<and>
            s3_calls (fst (finalize env (fst (init env bucket key w0)))) =
              s3_calls w0 @ [CreateMultipartUpload bucket key ''AES256''])"
proof -
  have gen: "finalize env v =
      (v, Raised (KeyError (hd (filter (\<lambda>k. map_of d k = None)
                                  [''Bucket'', ''Key'', ''UploadId'', ''Parts'']))))"
    if "multipart_file v = Some (Doc (JObj d))" for v
    using that assms(2)
    by (simp add: finalize_def finalize_body_def check_multipart_def read_ids_def getitem_def
        split: option.splits)
  have "multipart_file (fst (init env bucket key w0)) = Some (Doc (JObj d))"
    and "s3_calls (fst (init env bucket key w0)) =
           s3_calls w0 @ [CreateMultipartUpload bucket key ''AES256'']"
    if "create_multipart_upload (s3 env) bucket key ''AES256'' = Inr (Json (JObj d))"
    using that by (simp_all add: init_def Let_def secho_def json_dumps_def)
  with gen [of w, OF assms(1)] gen [of "fst (init env bucket key w0)"]
  show ?thesis by simp
qed

theorem finalize_without_parts_raises_witness:
  "finalize (example_env (example_client 200 (quoted ''9b2cf5'')) []) fresh_session =
     (fresh_session, Raised (KeyError ''Parts'')) \<and>
   snd (finalize (example_env (example_client 200 (quoted ''9b2cf5'')) [])
          (fst (init (example_env (example_client 200 (quoted ''9b2cf5'')) []) ''bucket1'' ''obj.bin''
                  no_session))) = Raised (KeyError ''Parts'')"
proof -
  let ?d = "[(''Bucket'', JStr ''bucket1''), (''Key'', JStr ''obj.bin''), (''UploadId'', JStr ''U1'')]"
  let ?env = "example_env (example_client 200 (quoted ''9b2cf5'')) []"
  have f: "multipart_file fresh_session = Some (Doc (JObj ?d))"
    by (simp add: fresh_session_def)
  have p: "map_of ?d ''Parts'' = None" by simp
  have c: "create_multipart_upload (s3 ?env) ''bucket1'' ''obj.bin'' ''AES256'' = Inr (Json (JObj ?d))"
    by (simp add: example_env_def example_client_def)
  have i: "fst (init ?env ''bucket1'' ''obj.bin'' no_session) =
      \<lparr>multipart_file = Some (Doc (JObj ?d)),
       s3_calls = [CreateMultipartUpload ''bucket1'' ''obj.bin'' ''AES256''],
       echoed = [([Lit ''Started multipart upload for s3://'', Lit ''bucket1'', Lit ''/'',
                   Lit ''obj.bin''], Green)]\<rparr>"
    by (simp add: init_def no_session_def example_env_def example_client_def secho_def
        json_dumps_def)
  have m: "multipart_file (fst (init ?env ''bucket1'' ''obj.bin'' no_session)) = Some (Doc (JObj ?d))"
    by (simp add: i)
  show ?thesis
    using finalize_without_parts_raises [OF f p, of ?env]
      finalize_without_parts_raises [OF m p, of ?env]
    by simp
qed

end
